theory Spec2Isabelle
  imports Main "HOL-Library.Word" "HOL-Library.Signed_Division"
begin

unbundle bit_operations_syntax

section \<open>The ChipCap 2 IIO driver (chipcap2.c)\<close>

text \<open>
  The driver has two entry points: \<open>chipcap2_probe\<close>, which binds an I2C client to an
  IIO device, and \<open>chipcap2_read_raw\<close>, which answers one "read a channel attribute"
  request. Both are embedded below as functions over an explicit state of the host kernel.
\<close>

subsection \<open>C integers\<close>

type_synonym u8 = "8 word"

text \<open>C's \<open>int\<close>: 32 bits, read as two's complement by \<open>sint\<close>.\<close>

type_synonym c_int = "32 word"

text \<open>Integer promotion of a \<open>u8\<close> operand to \<open>int\<close>.\<close>

definition promote :: "u8 \<Rightarrow> c_int" where
  "promote b = ucast b"

text \<open>C's \<open>/\<close> on \<open>int\<close> truncates towards zero.\<close>

definition c_div :: "c_int \<Rightarrow> c_int \<Rightarrow> c_int" where
  "c_div a b = word_of_int (sint a sdiv sint b)"

subsection \<open>Types of the host kernel that the driver names\<close>

text \<open>
  The enumerators of \<open>enum iio_chan_type\<close> and of \<open>enum iio_chan_info_enum\<close> that the
  driver compares against, and one constructor each for every other enumerator of the
  kernel's headers.
\<close>

datatype iio_chan_type = IIO_HUMIDITYRELATIVE | IIO_TEMP | IIO_TYPE_OTHER nat

datatype iio_chan_info =
  IIO_CHAN_INFO_RAW | IIO_CHAN_INFO_SCALE | IIO_CHAN_INFO_OFFSET | IIO_CHAN_INFO_OTHER nat

record iio_chan_spec =
  type :: iio_chan_type
  info_mask_separate :: "iio_chan_info list"

text \<open>The success codes of \<open>read_raw\<close> and the error numbers the driver returns negated.\<close>

datatype iio_val = IIO_VAL_INT | IIO_VAL_FRACTIONAL

datatype errno = EIO | EINVAL | EOPNOTSUPP | ENOMEM | ERRNO_OTHER nat

datatype i2c_func =
  I2C_FUNC_SMBUS_WRITE_BYTE | I2C_FUNC_SMBUS_READ_WORD_DATA | I2C_FUNC_OTHER nat

datatype iio_modes = INDIO_DIRECT_MODE | INDIO_NO_MODE

record iio_dev =
  name :: string
  modes :: iio_modes
  channels :: "iio_chan_spec list"
  num_channels :: nat

text \<open>Calls from the driver into the host kernel, in the order they are made.\<close>

datatype host_call =
  Check_Functionality "i2c_func list"
  | Block_Read u8 nat
  | Device_Alloc
  | Set_Clientdata
  | Device_Register iio_dev

text \<open>
  The host kernel as the driver sees it: what the client's adapter supports, how the sensor
  answers a transaction (given every call up to and including that transaction), whether
  an IIO device can be allocated, the status of registering it, the client's name, and
  the calls made so far.
\<close>

record host =
  functionality :: "i2c_func set"
  device :: "host_call list \<Rightarrow> errno + u8 list"
  alloc_ok :: bool
  register_status :: "errno option"
  client_name :: string
  calls :: "host_call list"

text \<open>The caller's two output locations \<open>*val\<close> and \<open>*val2\<close>.\<close>

record iio_out =
  val :: c_int
  val2 :: c_int

subsection \<open>Functions of the host kernel\<close>

definition called :: "host_call \<Rightarrow> host \<Rightarrow> host" where
  "called c h = h\<lparr>calls := calls h @ [c]\<rparr>"

text \<open>
  Modelled from the spec: \<open>i2c_smbus_read_i2c_block_data\<close> belongs to the host kernel and
  is not in this repository. One transaction writes the command byte and then either fails
  or delivers a block of bytes into the front of the caller's buffer; it returns the error
  or the number of bytes delivered.
\<close>

definition i2c_smbus_read_i2c_block_data ::
  "u8 \<Rightarrow> nat \<Rightarrow> u8 list \<Rightarrow> host \<Rightarrow> (errno + nat) \<times> u8 list \<times> host" where
  "i2c_smbus_read_i2c_block_data command len buf h =
     (let h' = called (Block_Read command len) h in
      case device h (calls h') of
        Inl e \<Rightarrow> (Inl e, buf, h')
      | Inr bs \<Rightarrow> (Inr (length bs), bs @ drop (length bs) buf, h'))"

text \<open>
  Modelled from the spec: \<open>i2c_check_functionality\<close> belongs to the host kernel and is not
  in this repository. It tells whether the adapter supports every primitive asked for.
\<close>

definition i2c_check_functionality :: "i2c_func list \<Rightarrow> host \<Rightarrow> bool \<times> host" where
  "i2c_check_functionality func h =
     (list_all (\<lambda>f. f \<in> functionality h) func, called (Check_Functionality func) h)"

text \<open>
  Modelled from the spec: \<open>devm_iio_device_alloc\<close>, \<open>i2c_set_clientdata\<close> and
  \<open>devm_iio_device_register\<close> belong to the host kernel and are not in this repository.
  Allocation yields a blank device or nothing; registration yields a status.
\<close>

definition devm_iio_device_alloc :: "host \<Rightarrow> iio_dev option \<times> host" where
  "devm_iio_device_alloc h =
     ((if alloc_ok h
       then Some \<lparr>name = [], modes = INDIO_NO_MODE, channels = [], num_channels = 0\<rparr>
       else None),
      called Device_Alloc h)"

definition i2c_set_clientdata :: "host \<Rightarrow> host" where
  "i2c_set_clientdata h = called Set_Clientdata h"

definition devm_iio_device_register :: "iio_dev \<Rightarrow> host \<Rightarrow> (errno + unit) \<times> host" where
  "devm_iio_device_register d h =
     ((case register_status h of None \<Rightarrow> Inr () | Some e \<Rightarrow> Inl e),
      called (Device_Register d) h)"

subsection \<open>The driver\<close>

definition CHIPCAP2_DATA_FETCH :: u8 where
  "CHIPCAP2_DATA_FETCH = 0xdf"

text \<open>
  \<open>chipcap2_read_raw\<close>. The automatic array \<open>buf\<close> is not initialised by the driver; its
  contents on entry are the parameter \<open>buf0\<close>. The results are the return value (an error
  number returned negated, or a success code), the two output locations, and the host.
  A \<open>switch\<close> case that ends in \<open>return\<close> is one branch of the \<open>case\<close>; every enumerator
  without a \<open>case\<close> label reaches \<open>default\<close> and the final \<open>return -EINVAL\<close>.
\<close>

definition chipcap2_read_raw ::
  "u8 list \<Rightarrow> iio_chan_spec \<Rightarrow> iio_chan_info \<Rightarrow> iio_out \<Rightarrow> host
     \<Rightarrow> (errno + iio_val) \<times> iio_out \<times> host" where
  "chipcap2_read_raw buf0 chan msk out h =
     (case msk of
        IIO_CHAN_INFO_RAW \<Rightarrow>
          if type chan = IIO_HUMIDITYRELATIVE then
            (case i2c_smbus_read_i2c_block_data CHIPCAP2_DATA_FETCH 2 buf0 h of
               (ret, buf, h') \<Rightarrow>
                 if ret \<noteq> Inr 2 then (Inl EIO, out, h')
                 else (Inr IIO_VAL_INT,
                       out\<lparr>val := push_bit 8 (promote (buf ! 0) AND 0x3F) + promote (buf ! 1)\<rparr>,
                       h'))
          else if type chan = IIO_TEMP then
            (case i2c_smbus_read_i2c_block_data CHIPCAP2_DATA_FETCH 4 buf0 h of
               (ret, buf, h') \<Rightarrow>
                 if ret \<noteq> Inr 4 then (Inl EIO, out, h')
                 else (Inr IIO_VAL_INT,
                       out\<lparr>val := push_bit 6 (promote (buf ! 2)) + c_div (promote (buf ! 3)) 4\<rparr>,
                       h'))
          else (Inr IIO_VAL_INT, out, h)
      | IIO_CHAN_INFO_SCALE \<Rightarrow>
          (let out1 = (if type chan = IIO_HUMIDITYRELATIVE
                       then out\<lparr>val := 100, val2 := 16384\<rparr> else out);
               out2 = (if type chan = IIO_TEMP
                       then out1\<lparr>val := 100, val2 := 9929\<rparr> else out1)
           in (Inr IIO_VAL_FRACTIONAL, out2, h))
      | IIO_CHAN_INFO_OFFSET \<Rightarrow>
          (Inr IIO_VAL_INT, (if type chan = IIO_TEMP then out\<lparr>val := - 40\<rparr> else out), h)
      | IIO_CHAN_INFO_OTHER k \<Rightarrow> (Inl EINVAL, out, h))"

definition chipcap2_channels :: "iio_chan_spec list" where
  "chipcap2_channels =
     [\<lparr>type = IIO_HUMIDITYRELATIVE,
       info_mask_separate = [IIO_CHAN_INFO_RAW, IIO_CHAN_INFO_SCALE]\<rparr>,
      \<lparr>type = IIO_TEMP,
       info_mask_separate = [IIO_CHAN_INFO_RAW, IIO_CHAN_INFO_SCALE, IIO_CHAN_INFO_OFFSET]\<rparr>]"

text \<open>
  \<open>chipcap2_probe\<close>. Of the fields the driver sets in the IIO device, the record keeps
  those that are data (\<open>name\<close>, \<open>modes\<close>, \<open>channels\<close>, \<open>num_channels\<close>).
\<close>

definition chipcap2_probe :: "host \<Rightarrow> (errno + unit) \<times> host" where
  "chipcap2_probe h =
     (case i2c_check_functionality
             [I2C_FUNC_SMBUS_WRITE_BYTE, I2C_FUNC_SMBUS_READ_WORD_DATA] h of
        (ok, h1) \<Rightarrow>
          if \<not> ok then (Inl EOPNOTSUPP, h1)
          else
            (case devm_iio_device_alloc h1 of
               (None, h2) \<Rightarrow> (Inl ENOMEM, h2)
             | (Some indio_dev, h2) \<Rightarrow>
                 devm_iio_device_register
                   (indio_dev\<lparr>name := client_name h2,
                              modes := INDIO_DIRECT_MODE,
                              channels := chipcap2_channels,
                              num_channels := length chipcap2_channels\<rparr>)
                   (i2c_set_clientdata h2)))"

subsection \<open>Observations on the calls made, and example inputs\<close>

text \<open>How many times the adapter's functionality was checked in a sequence of calls.\<close>

definition functionality_checks :: "host_call list \<Rightarrow> nat" where
  "functionality_checks cs =
     length (filter (\<lambda>c. case c of Check_Functionality f \<Rightarrow> True | _ \<Rightarrow> False) cs)"

text \<open>A sensor that answers every transaction with the same bytes, and one that always fails.\<close>

definition answering :: "u8 list \<Rightarrow> host_call list \<Rightarrow> errno + u8 list" where
  "answering bs cs = Inr bs"

definition failing :: "errno \<Rightarrow> host_call list \<Rightarrow> errno + u8 list" where
  "failing e cs = Inl e"

definition humidity_channel :: iio_chan_spec where
  "humidity_channel = chipcap2_channels ! 0"

definition temp_channel :: iio_chan_spec where
  "temp_channel = chipcap2_channels ! 1"

text \<open>A channel of a type the driver does not register.\<close>

definition foreign_channel :: iio_chan_spec where
  "foreign_channel = \<lparr>type = IIO_TYPE_OTHER 0, info_mask_separate = [IIO_CHAN_INFO_RAW]\<rparr>"

text \<open>A host whose adapter supports both primitives, with a given sensor behind it.\<close>

definition bound_host :: "(host_call list \<Rightarrow> errno + u8 list) \<Rightarrow> host" where
  "bound_host d =
     \<lparr>functionality = {I2C_FUNC_SMBUS_WRITE_BYTE, I2C_FUNC_SMBUS_READ_WORD_DATA},
      device = d, alloc_ok = True, register_status = None,
      client_name = ''cc2d23'', calls = []\<rparr>"

text \<open>A host whose adapter cannot read words.\<close>

definition unbound_host :: host where
  "unbound_host =
     \<lparr>functionality = {I2C_FUNC_SMBUS_WRITE_BYTE},
      device = failing EIO, alloc_ok = True, register_status = None,
      client_name = ''cc2d23'', calls = []\<rparr>"

definition zero_out :: iio_out where
  "zero_out = \<lparr>val = 0, val2 = 0\<rparr>"

section \<open>Arithmetic of the two raw codes\<close>

text \<open>
  The driver computes in \<open>int\<close>. The lemmas below show that both expressions stay far from
  the ends of the 32-bit range, so the machine result is the mathematical one.
\<close>

lemma promote_wi: "promote b = word_of_int (uint b)"
  by (simp add: promote_def)

lemma uint_u8_bounds: "0 \<le> uint (b::u8) \<and> uint b \<le> 255"
  using uint_lt2p [of b] by simp

lemma sint_wi_small: "0 \<le> k \<Longrightarrow> k < 2147483648 \<Longrightarrow> sint (word_of_int k :: c_int) = k"
  by (simp add: sint_sbintrunc' signed_take_bit_int_eq_self)

lemma sint_promote: "sint (promote b) = uint b"
proof -
  have "0 \<le> uint b" "uint b < 2147483648"
    using uint_u8_bounds [of b] by simp_all
  then have "sint (word_of_int (uint b) :: c_int) = uint b"
    by (rule sint_wi_small)
  then show ?thesis by (simp only: promote_wi)
qed

lemma hum_word:
  "push_bit 8 (promote b0 AND 0x3F) + promote b1
     = (word_of_int (push_bit 8 (uint b0 AND 0x3F) + uint b1) :: c_int)"
proof -
  have "(0x3F :: c_int) = word_of_int 0x3F" by simp
  then have "promote b0 AND 0x3F = (word_of_int (uint b0 AND 0x3F) :: c_int)"
    by (simp only: promote_wi word_wi_log_defs)
  then show ?thesis
    by (simp only: promote_wi push_bit_of_int wi_hom_add)
qed

lemma and63: "0 \<le> (k::int) AND 0x3F \<and> k AND 0x3F \<le> 63"
  by (simp add: AND_upper2)

lemma hum_bounds:
  "0 \<le> push_bit 8 (uint (b0::u8) AND 0x3F) + uint (b1::u8) \<and>
   push_bit 8 (uint b0 AND 0x3F) + uint b1 \<le> 16383"
proof -
  have "push_bit 8 (uint b0 AND 0x3F) = (uint b0 AND 0x3F) * 256"
    by (simp add: push_bit_eq_mult)
  then show ?thesis
    using and63 [of "uint b0"] uint_u8_bounds [of b1] by linarith
qed

lemma c_div_promote: "c_div (promote b) 4 = word_of_int (uint b div 4)"
proof -
  have four: "sint (4 :: c_int) = 4" by simp
  have "0 \<le> uint b" by simp
  then have "uint b sdiv 4 = uint b div 4"
    by (simp add: signed_divide_int_def sgn_if)
  then show ?thesis
    by (simp only: c_div_def sint_promote four)
qed

lemma temp_word:
  "push_bit 6 (promote b2) + c_div (promote b3) 4
     = (word_of_int (push_bit 6 (uint b2) + uint b3 div 4) :: c_int)"
proof -
  have "push_bit 6 (promote b2) = (word_of_int (push_bit 6 (uint b2)) :: c_int)"
    by (simp only: promote_wi push_bit_of_int)
  then show ?thesis
    by (simp only: c_div_promote wi_hom_add)
qed

lemma temp_bounds:
  "0 \<le> push_bit 6 (uint (b2::u8)) + uint (b3::u8) div 4 \<and>
   push_bit 6 (uint b2) + uint b3 div 4 \<le> 16383"
proof -
  have "push_bit 6 (uint b2) = uint b2 * 64"
    by (simp add: push_bit_eq_mult)
  moreover have "0 \<le> uint b3 div 4"
    by (simp add: pos_imp_zdiv_nonneg_iff)
  moreover have "uint b3 div 4 \<le> 63"
    using uint_u8_bounds [of b3] by simp
  ultimately show ?thesis
    using uint_u8_bounds [of b2] by linarith
qed

lemma status_bits_masked:
  fixes a b :: u8
  assumes "(a XOR b) AND 0x3F = 0"
  shows "uint a AND 0x3F = uint b AND 0x3F"
proof -
  have "(a AND 0x3F) XOR (b AND 0x3F) = 0"
    using assms by (simp add: bit.conj_xor_distrib2)
  then have "a AND 0x3F = (a AND 0x3F) XOR ((a AND 0x3F) XOR (b AND 0x3F))"
    by simp
  also have "\<dots> = b AND 0x3F"
    by (simp flip: xor.assoc)
  finally have "a AND 0x3F = b AND 0x3F" .
  then have "uint (a AND 0x3F) = uint (b AND 0x3F)"
    by (rule arg_cong)
  then show ?thesis
    by (simp add: uint_and)
qed

section \<open>One transaction\<close>

text \<open>
  A transaction that reports \<open>k\<close> bytes has put exactly the sensor's \<open>k\<close> bytes at the front
  of the buffer, so the bytes the driver then reads are the sensor's and not what the
  array held before.
\<close>

lemma block_read_delivers:
  assumes "i2c_smbus_read_i2c_block_data c n buf0 h = (Inr k, buf, h')"
  shows "k \<le> length buf \<and> device h (calls h @ [Block_Read c n]) = Inr (take k buf)"
  using assms
  by (auto simp: i2c_smbus_read_i2c_block_data_def called_def Let_def split: sum.splits)

lemma humidity_raw_run:
  assumes "type chan = IIO_HUMIDITYRELATIVE"
    and "i2c_smbus_read_i2c_block_data CHIPCAP2_DATA_FETCH 2 buf0 h = (Inr 2, buf, h')"
  shows "chipcap2_read_raw buf0 chan IIO_CHAN_INFO_RAW out h =
      (Inr IIO_VAL_INT,
       out\<lparr>val := word_of_int (push_bit 8 (uint (buf ! 0) AND 0x3F) + uint (buf ! 1))\<rparr>, h')"
proof -
  have "chipcap2_read_raw buf0 chan IIO_CHAN_INFO_RAW out h =
      (Inr IIO_VAL_INT,
       out\<lparr>val := push_bit 8 (promote (buf ! 0) AND 0x3F) + promote (buf ! 1)\<rparr>, h')"
    using assms by (simp add: chipcap2_read_raw_def)
  then show ?thesis
    by (simp only: hum_word)
qed

lemma temperature_raw_run:
  assumes "type chan = IIO_TEMP"
    and "i2c_smbus_read_i2c_block_data CHIPCAP2_DATA_FETCH 4 buf0 h = (Inr 4, buf, h')"
  shows "chipcap2_read_raw buf0 chan IIO_CHAN_INFO_RAW out h =
      (Inr IIO_VAL_INT,
       out\<lparr>val := word_of_int (push_bit 6 (uint (buf ! 2)) + uint (buf ! 3) div 4)\<rparr>, h')"
proof -
  have "chipcap2_read_raw buf0 chan IIO_CHAN_INFO_RAW out h =
      (Inr IIO_VAL_INT,
       out\<lparr>val := push_bit 6 (promote (buf ! 2)) + c_div (promote (buf ! 3)) 4\<rparr>, h')"
    using assms by (simp add: chipcap2_read_raw_def)
  then show ?thesis
    by (simp only: temp_word)
qed

text \<open>The two transactions of the examples.\<close>

lemma block_read_answering:
  "i2c_smbus_read_i2c_block_data c n buf0 (bound_host (answering bs)) =
     (Inr (length bs), bs @ drop (length bs) buf0, called (Block_Read c n) (bound_host (answering bs)))"
  by (simp add: i2c_smbus_read_i2c_block_data_def Let_def bound_host_def answering_def called_def)

lemma type_humidity_channel: "type humidity_channel = IIO_HUMIDITYRELATIVE"
  by (simp add: humidity_channel_def chipcap2_channels_def)

lemma type_temp_channel: "type temp_channel = IIO_TEMP"
  by (simp add: temp_channel_def chipcap2_channels_def)

section \<open>The calls a request and a bind make\<close>

lemma functionality_checks_called:
  "functionality_checks (calls (called c h)) =
     functionality_checks (calls h) + (case c of Check_Functionality f \<Rightarrow> 1 | _ \<Rightarrow> 0)"
  by (cases c) (simp_all add: functionality_checks_def called_def)

lemma probe_checks_once:
  "functionality_checks (calls (snd (chipcap2_probe h))) = Suc (functionality_checks (calls h))"
  by (simp add: chipcap2_probe_def i2c_check_functionality_def devm_iio_device_alloc_def
      devm_iio_device_register_def i2c_set_clientdata_def functionality_checks_called
      split: option.splits)

lemma read_raw_host:
  "snd (snd (chipcap2_read_raw buf0 chan msk out h)) = h \<or>
   snd (snd (chipcap2_read_raw buf0 chan msk out h)) = called (Block_Read CHIPCAP2_DATA_FETCH 2) h \<or>
   snd (snd (chipcap2_read_raw buf0 chan msk out h)) = called (Block_Read CHIPCAP2_DATA_FETCH 4) h"
  by (cases msk)
    (auto simp: chipcap2_read_raw_def i2c_smbus_read_i2c_block_data_def Let_def
      split: sum.splits)

lemma read_raw_never_checks:
  "functionality_checks (calls (snd (snd (chipcap2_read_raw buf0 chan msk out h)))) =
     functionality_checks (calls h)"
  using read_raw_host [of buf0 chan msk out h]
  by (auto simp: functionality_checks_called)

section \<open>Raw readings\<close>

text \<open>
  C1. A Humidity Raw request whose transaction delivers two bytes succeeds with the integer
  \<open>((buf[0] & 0x3F) << 8) + buf[1]\<close>, read here on the mathematical integers, and that
  integer lies between 0 and 16383. The two bytes read are within the delivered block, the
  second output location is not written, and the host has seen the one transaction.
\<close>

theorem humidity_raw_value:
  assumes "type chan = IIO_HUMIDITYRELATIVE"
    and "i2c_smbus_read_i2c_block_data CHIPCAP2_DATA_FETCH 2 buf0 h = (Inr 2, buf, h')"
  shows "(case chipcap2_read_raw buf0 chan IIO_CHAN_INFO_RAW out h of
            (r, out', h'') \<Rightarrow>
              r = Inr IIO_VAL_INT \<and>
              sint (val out') = push_bit 8 (uint (buf ! 0) AND 0x3F) + uint (buf ! 1) \<and>
              0 \<le> sint (val out') \<and> sint (val out') \<le> 16383 \<and>
              val2 out' = val2 out \<and> h'' = h') \<and> 2 \<le> length buf"
proof -
  let ?k = "push_bit 8 (uint (buf ! 0) AND 0x3F) + uint (buf ! 1)"
  have run: "chipcap2_read_raw buf0 chan IIO_CHAN_INFO_RAW out h =
      (Inr IIO_VAL_INT, out\<lparr>val := word_of_int ?k\<rparr>, h')"
    using assms by (rule humidity_raw_run)
  have "0 \<le> ?k" "?k < 2147483648"
    using hum_bounds [of "buf ! 0" "buf ! 1"] by simp_all
  then have "sint (word_of_int ?k :: c_int) = ?k"
    by (rule sint_wi_small)
  moreover have "2 \<le> length buf"
    using block_read_delivers [OF assms(2)] by simp
  ultimately show ?thesis
    using run hum_bounds [of "buf ! 0" "buf ! 1"] by simp
qed

text \<open>The example of the specification: the bytes 0x12 0x34 give 4660.\<close>

theorem humidity_raw_value_witness:
  "type humidity_channel = IIO_HUMIDITYRELATIVE \<and>
   i2c_smbus_read_i2c_block_data CHIPCAP2_DATA_FETCH 2 [0, 0, 0, 0, 0]
       (bound_host (answering [0x12, 0x34]))
     = (Inr 2, [0x12, 0x34, 0, 0, 0],
        called (Block_Read CHIPCAP2_DATA_FETCH 2) (bound_host (answering [0x12, 0x34]))) \<and>
   (case chipcap2_read_raw [0, 0, 0, 0, 0] humidity_channel IIO_CHAN_INFO_RAW zero_out
           (bound_host (answering [0x12, 0x34])) of
      (r, out', h'') \<Rightarrow> r = Inr IIO_VAL_INT \<and> sint (val out') = 4660)"
proof -
  have b: "i2c_smbus_read_i2c_block_data CHIPCAP2_DATA_FETCH 2 [0, 0, 0, 0, 0]
       (bound_host (answering [0x12, 0x34]))
     = (Inr 2, [0x12, 0x34, 0, 0, 0],
        called (Block_Read CHIPCAP2_DATA_FETCH 2) (bound_host (answering [0x12, 0x34])))"
    by (simp add: block_read_answering)
  show ?thesis
    using humidity_raw_value [OF type_humidity_channel b, of zero_out] type_humidity_channel b
    by (simp add: push_bit_eq_mult split: prod.splits)
qed

text \<open>
  C2. A Temperature Raw request whose transaction delivers four bytes succeeds with the
  integer \<open>(buf[2] << 6) + (buf[3] / 4)\<close>, the division discarding the remainder, and that
  integer is not negative. The two bytes read are within the delivered block.
\<close>

theorem temperature_raw_value:
  assumes "type chan = IIO_TEMP"
    and "i2c_smbus_read_i2c_block_data CHIPCAP2_DATA_FETCH 4 buf0 h = (Inr 4, buf, h')"
  shows "(case chipcap2_read_raw buf0 chan IIO_CHAN_INFO_RAW out h of
            (r, out', h'') \<Rightarrow>
              r = Inr IIO_VAL_INT \<and>
              sint (val out') = push_bit 6 (uint (buf ! 2)) + uint (buf ! 3) div 4 \<and>
              0 \<le> sint (val out') \<and>
              val2 out' = val2 out \<and> h'' = h') \<and> 4 \<le> length buf"
proof -
  let ?k = "push_bit 6 (uint (buf ! 2)) + uint (buf ! 3) div 4"
  have run: "chipcap2_read_raw buf0 chan IIO_CHAN_INFO_RAW out h =
      (Inr IIO_VAL_INT, out\<lparr>val := word_of_int ?k\<rparr>, h')"
    using assms by (rule temperature_raw_run)
  have "0 \<le> ?k" "?k < 2147483648"
    using temp_bounds [of "buf ! 2" "buf ! 3"] by simp_all
  then have "sint (word_of_int ?k :: c_int) = ?k"
    by (rule sint_wi_small)
  moreover have "4 \<le> length buf"
    using block_read_delivers [OF assms(2)] by simp
  ultimately show ?thesis
    using run temp_bounds [of "buf ! 2" "buf ! 3"] by simp
qed

text \<open>The example of the specification: the bytes 0x50 0x08 in places 2 and 3 give 5122.\<close>

theorem temperature_raw_value_witness:
  "type temp_channel = IIO_TEMP \<and>
   i2c_smbus_read_i2c_block_data CHIPCAP2_DATA_FETCH 4 [0, 0, 0, 0, 0]
       (bound_host (answering [0x12, 0x34, 0x50, 0x08]))
     = (Inr 4, [0x12, 0x34, 0x50, 0x08, 0],
        called (Block_Read CHIPCAP2_DATA_FETCH 4)
          (bound_host (answering [0x12, 0x34, 0x50, 0x08]))) \<and>
   (case chipcap2_read_raw [0, 0, 0, 0, 0] temp_channel IIO_CHAN_INFO_RAW zero_out
           (bound_host (answering [0x12, 0x34, 0x50, 0x08])) of
      (r, out', h'') \<Rightarrow> r = Inr IIO_VAL_INT \<and> sint (val out') = 5122)"
proof -
  have b: "i2c_smbus_read_i2c_block_data CHIPCAP2_DATA_FETCH 4 [0, 0, 0, 0, 0]
       (bound_host (answering [0x12, 0x34, 0x50, 0x08]))
     = (Inr 4, [0x12, 0x34, 0x50, 0x08, 0],
        called (Block_Read CHIPCAP2_DATA_FETCH 4)
          (bound_host (answering [0x12, 0x34, 0x50, 0x08])))"
    by (simp add: block_read_answering)
  show ?thesis
    using temperature_raw_value [OF type_temp_channel b, of zero_out] type_temp_channel b
    by (simp add: push_bit_eq_mult split: prod.splits)
qed

text \<open>
  C3, as the driver has it. A Raw request for a channel that is neither humidity nor
  temperature makes no transaction (the host is unchanged) and writes neither output
  location, but it returns the success code \<open>IIO_VAL_INT\<close>: the \<open>if\<close>/\<open>else if\<close> of the Raw
  case has no final \<open>else\<close>, and control reaches \<open>return IIO_VAL_INT\<close>.
\<close>

theorem raw_other_quantity:
  assumes "type chan \<noteq> IIO_HUMIDITYRELATIVE" and "type chan \<noteq> IIO_TEMP"
  shows "chipcap2_read_raw buf0 chan IIO_CHAN_INFO_RAW out h = (Inr IIO_VAL_INT, out, h)"
  using assms by (simp add: chipcap2_read_raw_def)

theorem raw_other_quantity_witness:
  "type foreign_channel \<noteq> IIO_HUMIDITYRELATIVE \<and> type foreign_channel \<noteq> IIO_TEMP \<and>
   chipcap2_read_raw [0, 0, 0, 0, 0] foreign_channel IIO_CHAN_INFO_RAW zero_out
       (bound_host (failing EIO))
     = (Inr IIO_VAL_INT, zero_out, bound_host (failing EIO))"
proof -
  have a: "type foreign_channel \<noteq> IIO_HUMIDITYRELATIVE"
    and b: "type foreign_channel \<noteq> IIO_TEMP"
    by (simp_all add: foreign_channel_def)
  show ?thesis
    using raw_other_quantity [OF a b] a b by simp
qed

text \<open>
  C3, as the specification has it, fails: for such a channel the return value is a success
  code and not the invalid-argument failure.
\<close>

theorem raw_other_quantity_counterexample:
  "type foreign_channel \<noteq> IIO_HUMIDITYRELATIVE \<and> type foreign_channel \<noteq> IIO_TEMP \<and>
   fst (chipcap2_read_raw [0, 0, 0, 0, 0] foreign_channel IIO_CHAN_INFO_RAW zero_out
          (bound_host (failing EIO))) = Inr IIO_VAL_INT \<and>
   fst (chipcap2_read_raw [0, 0, 0, 0, 0] foreign_channel IIO_CHAN_INFO_RAW zero_out
          (bound_host (failing EIO))) \<noteq> Inl EINVAL"
  by (simp add: chipcap2_read_raw_def foreign_channel_def)

text \<open>
  C4. A Raw request for humidity (2 bytes asked) or temperature (4 bytes asked) whose
  transaction returns anything but that count, a transport error included, returns \<open>-EIO\<close>
  and leaves both output locations as they were.
\<close>

theorem raw_short_read:
  assumes "(type chan = IIO_HUMIDITYRELATIVE \<and> n = 2) \<or> (type chan = IIO_TEMP \<and> n = 4)"
    and "i2c_smbus_read_i2c_block_data CHIPCAP2_DATA_FETCH n buf0 h = (ret, buf, h')"
    and "ret \<noteq> Inr n"
  shows "chipcap2_read_raw buf0 chan IIO_CHAN_INFO_RAW out h = (Inl EIO, out, h')"
  using assms by (auto simp: chipcap2_read_raw_def)

text \<open>A temperature request answered with two bytes only.\<close>

theorem raw_short_read_witness:
  "((type temp_channel = IIO_HUMIDITYRELATIVE \<and> (4::nat) = 2) \<or>
    (type temp_channel = IIO_TEMP \<and> (4::nat) = 4)) \<and>
   i2c_smbus_read_i2c_block_data CHIPCAP2_DATA_FETCH 4 [0, 0, 0, 0, 0]
       (bound_host (answering [0x12, 0x34]))
     = (Inr 2, [0x12, 0x34, 0, 0, 0],
        called (Block_Read CHIPCAP2_DATA_FETCH 4) (bound_host (answering [0x12, 0x34]))) \<and>
   (Inr 2 :: errno + nat) \<noteq> Inr 4 \<and>
   chipcap2_read_raw [0, 0, 0, 0, 0] temp_channel IIO_CHAN_INFO_RAW zero_out
       (bound_host (answering [0x12, 0x34]))
     = (Inl EIO, zero_out,
        called (Block_Read CHIPCAP2_DATA_FETCH 4) (bound_host (answering [0x12, 0x34])))"
proof -
  have t: "(type temp_channel = IIO_HUMIDITYRELATIVE \<and> (4::nat) = 2) \<or>
    (type temp_channel = IIO_TEMP \<and> (4::nat) = 4)"
    by (simp add: type_temp_channel)
  have b: "i2c_smbus_read_i2c_block_data CHIPCAP2_DATA_FETCH 4 [0, 0, 0, 0, 0]
       (bound_host (answering [0x12, 0x34]))
     = (Inr 2, [0x12, 0x34, 0, 0, 0],
        called (Block_Read CHIPCAP2_DATA_FETCH 4) (bound_host (answering [0x12, 0x34])))"
    by (simp add: block_read_answering)
  have c: "(Inr 2 :: errno + nat) \<noteq> Inr 4" by simp
  show ?thesis
    using raw_short_read [OF t b c, of zero_out] t b by simp
qed

section \<open>Scale and offset\<close>

text \<open>
  C5. A Scale request makes no transaction (the host is returned unchanged) and returns the
  fractional code with the pair (100, 16384) for humidity and (100, 9929) for temperature,
  whatever the buffer, the sensor and the output locations held before. For every channel
  the return value is the fractional code and the host is unchanged.
\<close>

theorem scale_constants:
  "chipcap2_read_raw buf0 (chan\<lparr>type := IIO_HUMIDITYRELATIVE\<rparr>) IIO_CHAN_INFO_SCALE out h
     = (Inr IIO_VAL_FRACTIONAL, out\<lparr>val := 100, val2 := 16384\<rparr>, h) \<and>
   chipcap2_read_raw buf0 (chan\<lparr>type := IIO_TEMP\<rparr>) IIO_CHAN_INFO_SCALE out h
     = (Inr IIO_VAL_FRACTIONAL, out\<lparr>val := 100, val2 := 9929\<rparr>, h) \<and>
   sint (100 :: c_int) = 100 \<and> sint (16384 :: c_int) = 16384 \<and> sint (9929 :: c_int) = 9929 \<and>
   fst (chipcap2_read_raw buf0 chan IIO_CHAN_INFO_SCALE out h) = Inr IIO_VAL_FRACTIONAL \<and>
   snd (snd (chipcap2_read_raw buf0 chan IIO_CHAN_INFO_SCALE out h)) = h"
  by (simp add: chipcap2_read_raw_def Let_def)

theorem scale_constants_witness:
  "chipcap2_read_raw [0, 0, 0, 0, 0] humidity_channel IIO_CHAN_INFO_SCALE zero_out
       (bound_host (answering [0x12, 0x34]))
     = (Inr IIO_VAL_FRACTIONAL, \<lparr>val = 100, val2 = 16384\<rparr>, bound_host (answering [0x12, 0x34])) \<and>
   chipcap2_read_raw [0xFF, 0xFF, 0xFF, 0xFF, 0xFF] temp_channel IIO_CHAN_INFO_SCALE zero_out
       (bound_host (failing EIO))
     = (Inr IIO_VAL_FRACTIONAL, \<lparr>val = 100, val2 = 9929\<rparr>, bound_host (failing EIO))"
proof -
  have h: "humidity_channel\<lparr>type := IIO_HUMIDITYRELATIVE\<rparr> = humidity_channel"
    and t: "temp_channel\<lparr>type := IIO_TEMP\<rparr> = temp_channel"
    by (simp_all add: humidity_channel_def temp_channel_def chipcap2_channels_def)
  show ?thesis
    using scale_constants [where ?buf0.0 = "[0, 0, 0, 0, 0]" and chan = humidity_channel
        and out = zero_out and h = "bound_host (answering [0x12, 0x34])"]
      scale_constants [where ?buf0.0 = "[0xFF, 0xFF, 0xFF, 0xFF, 0xFF]" and chan = temp_channel
        and out = zero_out and h = "bound_host (failing EIO)"]
    by (simp add: h t zero_out_def)
qed

text \<open>
  C6. An Offset request for the temperature channel returns the integer code with the value
  -40 and makes no transaction (the host is returned unchanged); a second such request right
  after it, whatever its buffer and output locations held, returns the same code and value.
\<close>

theorem temperature_offset:
  assumes "type chan = IIO_TEMP"
  shows "(case chipcap2_read_raw buf0 chan IIO_CHAN_INFO_OFFSET out h of
            (r1, out1, h1) \<Rightarrow>
              r1 = Inr IIO_VAL_INT \<and> sint (val out1) = - 40 \<and> val2 out1 = val2 out \<and> h1 = h \<and>
              (case chipcap2_read_raw buf1 chan IIO_CHAN_INFO_OFFSET out' h1 of
                 (r2, out2, h2) \<Rightarrow> r2 = r1 \<and> val out2 = val out1 \<and> h2 = h))"
  using assms by (simp add: chipcap2_read_raw_def)

theorem temperature_offset_witness:
  "type temp_channel = IIO_TEMP \<and>
   (case chipcap2_read_raw [0, 0, 0, 0, 0] temp_channel IIO_CHAN_INFO_OFFSET zero_out
           (bound_host (failing EIO)) of
      (r1, out1, h1) \<Rightarrow>
        r1 = Inr IIO_VAL_INT \<and> sint (val out1) = - 40 \<and> val2 out1 = val2 zero_out \<and>
        h1 = bound_host (failing EIO) \<and>
        (case chipcap2_read_raw [0, 0, 0, 0, 0] temp_channel IIO_CHAN_INFO_OFFSET zero_out h1 of
           (r2, out2, h2) \<Rightarrow> r2 = r1 \<and> val out2 = val out1 \<and> h2 = bound_host (failing EIO)))"
  using temperature_offset [OF type_temp_channel, where ?buf0.0 = "[0, 0, 0, 0, 0]"
      and out = zero_out and h = "bound_host (failing EIO)" and ?buf1.0 = "[0, 0, 0, 0, 0]"
      and out' = zero_out] type_temp_channel
  by simp

section \<open>Unknown aspects\<close>

text \<open>
  C7. A request whose aspect is none of Raw, Scale and Offset returns \<open>-EINVAL\<close>, for every
  channel, buffer and sensor; it makes no transaction and writes no output location.
\<close>

theorem unknown_aspect:
  assumes "msk \<noteq> IIO_CHAN_INFO_RAW" and "msk \<noteq> IIO_CHAN_INFO_SCALE"
    and "msk \<noteq> IIO_CHAN_INFO_OFFSET"
  shows "chipcap2_read_raw buf0 chan msk out h = (Inl EINVAL, out, h)"
  using assms by (cases msk) (simp_all add: chipcap2_read_raw_def)

theorem unknown_aspect_witness:
  "IIO_CHAN_INFO_OTHER 1 \<noteq> IIO_CHAN_INFO_RAW \<and>
   IIO_CHAN_INFO_OTHER 1 \<noteq> IIO_CHAN_INFO_SCALE \<and>
   IIO_CHAN_INFO_OTHER 1 \<noteq> IIO_CHAN_INFO_OFFSET \<and>
   chipcap2_read_raw [0, 0, 0, 0, 0] humidity_channel (IIO_CHAN_INFO_OTHER 1) zero_out
       (bound_host (answering [0x12, 0x34]))
     = (Inl EINVAL, zero_out, bound_host (answering [0x12, 0x34]))"
  using unknown_aspect [where msk = "IIO_CHAN_INFO_OTHER 1" and ?buf0.0 = "[0, 0, 0, 0, 0]"
      and chan = humidity_channel and out = zero_out
      and h = "bound_host (answering [0x12, 0x34])"]
  by simp

section \<open>Binding\<close>

text \<open>
  C8. When the adapter lacks the byte-write or the word-read primitive, \<open>chipcap2_probe\<close>
  returns \<open>-EOPNOTSUPP\<close> and the only call it has made is the functionality check: no device
  was allocated or registered. On every path a bind checks the functionality exactly once,
  and a read request, whatever its arguments, never checks it.
\<close>

theorem probe_unsupported_transport:
  "(\<not> (I2C_FUNC_SMBUS_WRITE_BYTE \<in> functionality h \<and>
        I2C_FUNC_SMBUS_READ_WORD_DATA \<in> functionality h) \<longrightarrow>
      chipcap2_probe h =
        (Inl EOPNOTSUPP,
         called (Check_Functionality
                   [I2C_FUNC_SMBUS_WRITE_BYTE, I2C_FUNC_SMBUS_READ_WORD_DATA]) h)) \<and>
   functionality_checks (calls (snd (chipcap2_probe h))) =
     Suc (functionality_checks (calls h)) \<and>
   functionality_checks (calls (snd (snd (chipcap2_read_raw buf0 chan msk out h')))) =
     functionality_checks (calls h')"
proof -
  have "chipcap2_probe h =
        (Inl EOPNOTSUPP,
         called (Check_Functionality
                   [I2C_FUNC_SMBUS_WRITE_BYTE, I2C_FUNC_SMBUS_READ_WORD_DATA]) h)"
    if "\<not> (I2C_FUNC_SMBUS_WRITE_BYTE \<in> functionality h \<and>
        I2C_FUNC_SMBUS_READ_WORD_DATA \<in> functionality h)"
    using that by (auto simp: chipcap2_probe_def i2c_check_functionality_def)
  then show ?thesis
    using probe_checks_once [of h] read_raw_never_checks [of buf0 chan msk out h']
    by blast
qed

theorem probe_unsupported_transport_witness:
  "\<not> (I2C_FUNC_SMBUS_WRITE_BYTE \<in> functionality unbound_host \<and>
        I2C_FUNC_SMBUS_READ_WORD_DATA \<in> functionality unbound_host) \<and>
   fst (chipcap2_probe unbound_host) = Inl EOPNOTSUPP \<and>
   calls (snd (chipcap2_probe unbound_host)) =
     [Check_Functionality [I2C_FUNC_SMBUS_WRITE_BYTE, I2C_FUNC_SMBUS_READ_WORD_DATA]]"
proof -
  have a: "\<not> (I2C_FUNC_SMBUS_WRITE_BYTE \<in> functionality unbound_host \<and>
        I2C_FUNC_SMBUS_READ_WORD_DATA \<in> functionality unbound_host)"
    by (simp add: unbound_host_def)
  have "calls unbound_host = []"
    by (simp add: unbound_host_def)
  then show ?thesis
    using probe_unsupported_transport [of unbound_host] a
    by (simp add: called_def)
qed

section \<open>The status bits and the range of the temperature code\<close>

text \<open>
  C9. Two Humidity Raw requests whose delivered buffers agree in byte 1 and differ in byte 0
  at most in its top two bits return the same code and the same value.
\<close>

theorem humidity_raw_ignores_status:
  assumes "type chan = IIO_HUMIDITYRELATIVE"
    and "i2c_smbus_read_i2c_block_data CHIPCAP2_DATA_FETCH 2 buf0 h = (Inr 2, buf, h1)"
    and "i2c_smbus_read_i2c_block_data CHIPCAP2_DATA_FETCH 2 buf0' h' = (Inr 2, buf', h1')"
    and "(buf ! 0 XOR buf' ! 0) AND 0x3F = 0"
    and "buf ! 1 = buf' ! 1"
  shows "fst (chipcap2_read_raw buf0 chan IIO_CHAN_INFO_RAW out h) =
           fst (chipcap2_read_raw buf0' chan IIO_CHAN_INFO_RAW out' h') \<and>
         val (fst (snd (chipcap2_read_raw buf0 chan IIO_CHAN_INFO_RAW out h))) =
           val (fst (snd (chipcap2_read_raw buf0' chan IIO_CHAN_INFO_RAW out' h')))"
proof -
  have "uint (buf ! 0) AND 0x3F = uint (buf' ! 0) AND 0x3F"
    using assms(4) by (rule status_bits_masked)
  then show ?thesis
    using humidity_raw_run [OF assms(1) assms(2), of out]
      humidity_raw_run [OF assms(1) assms(3), of out'] assms(5)
    by simp
qed

text \<open>The bytes 0x12 0x34 and 0xD2 0x34: the same reading with both status bits set.\<close>

theorem humidity_raw_ignores_status_witness:
  "type humidity_channel = IIO_HUMIDITYRELATIVE \<and>
   i2c_smbus_read_i2c_block_data CHIPCAP2_DATA_FETCH 2 [0, 0, 0, 0, 0]
       (bound_host (answering [0x12, 0x34]))
     = (Inr 2, [0x12, 0x34, 0, 0, 0],
        called (Block_Read CHIPCAP2_DATA_FETCH 2) (bound_host (answering [0x12, 0x34]))) \<and>
   i2c_smbus_read_i2c_block_data CHIPCAP2_DATA_FETCH 2 [0, 0, 0, 0, 0]
       (bound_host (answering [0xD2, 0x34]))
     = (Inr 2, [0xD2, 0x34, 0, 0, 0],
        called (Block_Read CHIPCAP2_DATA_FETCH 2) (bound_host (answering [0xD2, 0x34]))) \<and>
   (([0x12, 0x34, 0, 0, 0] ! 0 XOR [0xD2, 0x34, 0, 0, 0] ! 0) AND 0x3F = (0 :: u8)) \<and>
   ([0x12, 0x34, 0, 0, 0] ! 1 = ([0xD2, 0x34, 0, 0, 0] ! 1 :: u8)) \<and>
   val (fst (snd (chipcap2_read_raw [0, 0, 0, 0, 0] humidity_channel IIO_CHAN_INFO_RAW zero_out
                    (bound_host (answering [0x12, 0x34]))))) =
   val (fst (snd (chipcap2_read_raw [0, 0, 0, 0, 0] humidity_channel IIO_CHAN_INFO_RAW zero_out
                    (bound_host (answering [0xD2, 0x34])))))"
proof -
  have b1: "i2c_smbus_read_i2c_block_data CHIPCAP2_DATA_FETCH 2 [0, 0, 0, 0, 0]
       (bound_host (answering [0x12, 0x34]))
     = (Inr 2, [0x12, 0x34, 0, 0, 0],
        called (Block_Read CHIPCAP2_DATA_FETCH 2) (bound_host (answering [0x12, 0x34])))"
    by (simp add: block_read_answering)
  have b2: "i2c_smbus_read_i2c_block_data CHIPCAP2_DATA_FETCH 2 [0, 0, 0, 0, 0]
       (bound_host (answering [0xD2, 0x34]))
     = (Inr 2, [0xD2, 0x34, 0, 0, 0],
        called (Block_Read CHIPCAP2_DATA_FETCH 2) (bound_host (answering [0xD2, 0x34])))"
    by (simp add: block_read_answering)
  have x: "([0x12, 0x34, 0, 0, 0] ! 0 XOR [0xD2, 0x34, 0, 0, 0] ! 0) AND 0x3F = (0 :: u8)"
    by simp
  have y: "[0x12, 0x34, 0, 0, 0] ! 1 = ([0xD2, 0x34, 0, 0, 0] ! 1 :: u8)"
    by simp
  show ?thesis
    using humidity_raw_ignores_status [OF type_humidity_channel b1 b2 x y, of zero_out zero_out]
      type_humidity_channel b1 b2 x y
    by simp
qed

text \<open>
  C10. The value of a Temperature Raw request whose transaction delivers four bytes is at
  most 16383.
\<close>

theorem temperature_raw_upper_bound:
  assumes "type chan = IIO_TEMP"
    and "i2c_smbus_read_i2c_block_data CHIPCAP2_DATA_FETCH 4 buf0 h = (Inr 4, buf, h')"
  shows "sint (val (fst (snd (chipcap2_read_raw buf0 chan IIO_CHAN_INFO_RAW out h)))) \<le> 16383"
proof -
  let ?k = "push_bit 6 (uint (buf ! 2)) + uint (buf ! 3) div 4"
  have "0 \<le> ?k" "?k < 2147483648"
    using temp_bounds [of "buf ! 2" "buf ! 3"] by simp_all
  then have "sint (word_of_int ?k :: c_int) = ?k"
    by (rule sint_wi_small)
  then show ?thesis
    using temperature_raw_run [OF assms, of out] temp_bounds [of "buf ! 2" "buf ! 3"] by simp
qed

text \<open>The largest bytes, 0xFF in every place, reach the bound.\<close>

theorem temperature_raw_upper_bound_witness:
  "type temp_channel = IIO_TEMP \<and>
   i2c_smbus_read_i2c_block_data CHIPCAP2_DATA_FETCH 4 [0, 0, 0, 0, 0]
       (bound_host (answering [0xFF, 0xFF, 0xFF, 0xFF]))
     = (Inr 4, [0xFF, 0xFF, 0xFF, 0xFF, 0],
        called (Block_Read CHIPCAP2_DATA_FETCH 4)
          (bound_host (answering [0xFF, 0xFF, 0xFF, 0xFF]))) \<and>
   sint (val (fst (snd (chipcap2_read_raw [0, 0, 0, 0, 0] temp_channel IIO_CHAN_INFO_RAW zero_out
                          (bound_host (answering [0xFF, 0xFF, 0xFF, 0xFF])))))) \<le> 16383 \<and>
   sint (val (fst (snd (chipcap2_read_raw [0, 0, 0, 0, 0] temp_channel IIO_CHAN_INFO_RAW zero_out
                          (bound_host (answering [0xFF, 0xFF, 0xFF, 0xFF])))))) = 16383"
proof -
  have b: "i2c_smbus_read_i2c_block_data CHIPCAP2_DATA_FETCH 4 [0, 0, 0, 0, 0]
       (bound_host (answering [0xFF, 0xFF, 0xFF, 0xFF]))
     = (Inr 4, [0xFF, 0xFF, 0xFF, 0xFF, 0],
        called (Block_Read CHIPCAP2_DATA_FETCH 4)
          (bound_host (answering [0xFF, 0xFF, 0xFF, 0xFF])))"
    by (simp add: block_read_answering)
  have e: "sint (val (fst (snd (chipcap2_read_raw [0, 0, 0, 0, 0] temp_channel IIO_CHAN_INFO_RAW
              zero_out (bound_host (answering [0xFF, 0xFF, 0xFF, 0xFF])))))) = 16383"
    using temperature_raw_run [OF type_temp_channel b, of zero_out]
    by (simp add: push_bit_eq_mult)
  show ?thesis
    using temperature_raw_upper_bound [OF type_temp_channel b, of zero_out] type_temp_channel b e
    by simp
qed

end
